theory Spec2Isabelle
  imports Main
begin

unbundle bit_operations_syntax

section \<open>The platform module \<open>rpgpio_private\<close>\<close>

text \<open>
  \<open>rpgpio.py\<close> starts with \<open>from rpgpio_private import *\<close>. That module (register offsets,
  bit masks, field macros and the two memory classes) is not among the sources, so its
  constants and macros are parameters of the model: one record per peripheral block, and
  every function below takes the record \<open>k\<close> of the whole module. Python integers are
  unbounded; they are \<open>int\<close> here, and \<open>|\<close>, \<open>&\<close>, \<open>~\<close>, \<open><<\<close> are \<open>OR\<close>, \<open>AND\<close>,
  \<open>NOT\<close>, \<open>push_bit\<close> on \<open>int\<close>.
\<close>

record gpio_consts =
  GPIO_REGISTER_BASE :: int
  GPIO_FSEL_OFFSET :: int
  GPIO_SET_OFFSET :: int
  GPIO_CLEAR_OFFSET :: int
  GPIO_INPUT_OFFSET :: int
  GPIO_PULLUPDN_OFFSET :: int
  GPIO_PULLUPDNCLK_OFFSET :: int
  PHYSICAL_GPIO_BUS :: int

record dma_consts =
  DMA_BASE :: int
  DMA_TI_NO_WIDE_BURSTS :: int
  DMA_SRC_IGNORE :: int
  DMA_TI_PER_MAP :: "int \<Rightarrow> int"
  DMA_TI_PER_MAP_PWM :: int
  DMA_TI_DEST_DREQ :: int
  DMA_TI_TDMODE :: int
  DMA_TI_WAIT_RESP :: int
  DMA_TI_TXFR_LEN_YLENGTH :: "int \<Rightarrow> int"
  DMA_TI_TXFR_LEN_XLENGTH :: "int \<Rightarrow> int"
  DMA_TI_STRIDE_D_STRIDE :: "int \<Rightarrow> int"
  DMA_TI_STRIDE_S_STRIDE :: "int \<Rightarrow> int"
  DMA_CS_RESET :: int
  DMA_CS_ABORT :: int
  DMA_CS_DISDEBUG :: int
  DMA_CS_END :: int
  DMA_CS_ACTIVE :: int
  DMA_CS_PRIORITY :: "int \<Rightarrow> int"
  DMA_CS_PANIC_PRIORITY :: "int \<Rightarrow> int"

record pwm_consts =
  PWM_BASE :: int
  PHYSICAL_PWM_BUS :: int
  PWM_CTL :: int
  PWM_DMAC :: int
  PWM_RNG1 :: int
  PWM_CTL_PWEN1 :: int
  PWM_CTL_CLRF :: int
  PWM_CTL_USEF1 :: int
  PWM_DMAC_ENAB :: int
  PWM_DMAC_PANIC :: "int \<Rightarrow> int"
  PWM_DMAC_DREQ :: "int \<Rightarrow> int"

record cm_consts =
  CM_BASE :: int
  CM_CNTL :: int
  CM_DIV :: int
  CM_PASSWORD :: int
  CM_ENABLE :: int
  CM_SRC_PLLD :: int
  CM_DIV_VALUE :: "int \<Rightarrow> int"

record rpgpio_private =
  PERI_BASE :: int
  gpio :: gpio_consts
  dma :: dma_consts
  pwm :: pwm_consts
  cm :: cm_consts

subsection \<open>Register windows (class \<open>PhysicalMemory\<close>)\<close>

text \<open>
  A register window is identified by the physical address it was mapped at. Its registers
  are live hardware, not memory: what a read returns is decided by the device. The device
  is a parameter \<open>hw\<close>, a function of everything that has happened on the registers so far;
  every access is appended to that history, a read together with the value it returned.
  \<open>time.sleep\<close> is recorded as an event too, with its duration in microseconds.
\<close>

datatype event =
  Read int int int
| Write int int int
| Sleep_us nat

type_synonym hardware = "event list \<Rightarrow> int \<Rightarrow> int \<Rightarrow> int"

text \<open>
  Modelled from the spec: \<open>PhysicalMemory.read_int\<close> and \<open>PhysicalMemory.write_int\<close>, the
  RegisterWindow's \<open>read32(offset)\<close> and \<open>write32(offset, value)\<close>: "each access is a single,
  non-reordered, non-cached load/store directly against the mapped physical range".
\<close>

definition read_int :: "hardware \<Rightarrow> int \<Rightarrow> int \<Rightarrow> event list \<Rightarrow> int \<times> event list" where
  "read_int hw base address tr =
     (let v = hw tr base address in (v, tr @ [Read base address v]))"

definition write_int :: "int \<Rightarrow> int \<Rightarrow> int \<Rightarrow> event list \<Rightarrow> event list" where
  "write_int base address v tr = tr @ [Write base address v]"


section \<open>class \<open>GPIO\<close>\<close>





section \<open>class \<open>DMAGPIO\<close>\<close>

subsection \<open>The descriptor buffer (class \<open>CMAPhysicalMemory\<close>)\<close>

text \<open>
  Modelled from the spec: \<open>CMAPhysicalMemory\<close>, the ContiguousBuffer with \<open>capacity()\<close>,
  \<open>busAddress()\<close>, \<open>write32(offset, value)\<close> and \<open>writeWords(offset, sequence)\<close>. The
  buffer is ordinary memory: \<open>words\<close> gives the word stored at a byte offset, and a
  sequence of words written at \<open>address\<close> lands at \<open>address\<close>, \<open>address + 4\<close>, ... The word
  stored is the Python integer handed over; packing it into four bytes belongs to the
  missing class. The bus address and the contents of a fresh allocation are whatever the
  platform returns, hence parameters.
\<close>

record cma =
  get_size :: int
  get_bus_address :: int
  words :: "int \<Rightarrow> int"

definition CMAPhysicalMemory :: "int \<Rightarrow> int \<Rightarrow> (int \<Rightarrow> int) \<Rightarrow> cma" where
  "CMAPhysicalMemory size_bytes bus contents =
     \<lparr>get_size = size_bytes, get_bus_address = bus, words = contents\<rparr>"

definition cma_write_int :: "int \<Rightarrow> int \<Rightarrow> cma \<Rightarrow> cma" where
  "cma_write_int address v m = m\<lparr>words := (words m)(address := v)\<rparr>"

fun cma_write :: "int \<Rightarrow> int list \<Rightarrow> cma \<Rightarrow> cma" where
  "cma_write address [] m = m"
| "cma_write address (v # vs) m = cma_write (address + 4) vs (cma_write_int address v m)"

subsection \<open>The engine\<close>

datatype error = MemoryError | RuntimeError

record dmagpio =
  current_address :: int
  physmem :: cma
  io :: "event list"

text \<open>
  A call returns the error it raised, if any, and the state it leaves the engine in;
  a call that never returns is \<open>None\<close> (only \<open>run_stream\<close> and \<open>run\<close> contain a loop).
\<close>

type_synonym outcome = "error option \<times> dmagpio"

definition DMA_CONTROL_BLOCK_SIZE :: int where "DMA_CONTROL_BLOCK_SIZE = 32"
definition DMA_CHANNEL :: int where "DMA_CHANNEL = 5"

text \<open>
  \<open>DMAGPIO.__init__\<close>: allocates the buffer, "always 32 MB", and sets the cursor to 0.
  \<open>tr\<close> is the history of the registers at that moment. The three register windows and the
  pre-calculated words of the control blocks are fixed by the module constants.
\<close>

definition DMAGPIO :: "int \<Rightarrow> (int \<Rightarrow> int) \<Rightarrow> event list \<Rightarrow> dmagpio" where
  "DMAGPIO bus contents tr =
     \<lparr>current_address = 0,
      physmem = CMAPhysicalMemory (32 * 1024 * 1024) bus contents,
      io = tr\<rparr>"

definition dma_mem :: "rpgpio_private \<Rightarrow> int" where
  "dma_mem k = PERI_BASE k + DMA_BASE (dma k)"

definition pwm_mem :: "rpgpio_private \<Rightarrow> int" where
  "pwm_mem k = PERI_BASE k + PWM_BASE (pwm k)"

definition clock_mem :: "rpgpio_private \<Rightarrow> int" where
  "clock_mem k = PERI_BASE k + CM_BASE (cm k)"

definition delay_info :: "rpgpio_private \<Rightarrow> int" where
  "delay_info k =
     DMA_TI_NO_WIDE_BURSTS (dma k) OR DMA_SRC_IGNORE (dma k)
       OR DMA_TI_PER_MAP (dma k) (DMA_TI_PER_MAP_PWM (dma k))
       OR DMA_TI_DEST_DREQ (dma k)"

definition delay_destination :: "rpgpio_private \<Rightarrow> int" where
  "delay_destination k = PHYSICAL_PWM_BUS (pwm k) + 0x18"

definition delay_stride :: int where
  "delay_stride = 0"

definition pulse_info :: "rpgpio_private \<Rightarrow> int" where
  "pulse_info k =
     DMA_TI_NO_WIDE_BURSTS (dma k) OR DMA_TI_TDMODE (dma k) OR DMA_TI_WAIT_RESP (dma k)"

definition pulse_destination :: "rpgpio_private \<Rightarrow> int" where
  "pulse_destination k = PHYSICAL_GPIO_BUS (gpio k) + GPIO_SET_OFFSET (gpio k)"

definition pulse_length :: "rpgpio_private \<Rightarrow> int" where
  "pulse_length k =
     DMA_TI_TXFR_LEN_YLENGTH (dma k) 2 OR DMA_TI_TXFR_LEN_XLENGTH (dma k) 4"

definition pulse_stride :: "rpgpio_private \<Rightarrow> int" where
  "pulse_stride k =
     DMA_TI_STRIDE_D_STRIDE (dma k) 12 OR DMA_TI_STRIDE_S_STRIDE (dma k) 4"

definition add_pulse :: "rpgpio_private \<Rightarrow> int \<Rightarrow> int \<Rightarrow> dmagpio \<Rightarrow> outcome" where
  "add_pulse k pins_mask length_us s =
     (let next_cb = current_address s + 3 * DMA_CONTROL_BLOCK_SIZE
      in if next_cb > get_size (physmem s) then (Some MemoryError, s)
         else
          (let next3 = next_cb + get_bus_address (physmem s);
               next2 = next3 - DMA_CONTROL_BLOCK_SIZE;
               next1 = next2 - DMA_CONTROL_BLOCK_SIZE;
               source1 = next1 - 8;
               length2 = 16 * length_us;
               source3 = next3 - 8;
               data =
                 [pulse_info k, source1, pulse_destination k, pulse_length k,
                  pulse_stride k, next1, pins_mask, 0,
                  delay_info k, 0, delay_destination k, length2,
                  delay_stride, next2, 0, 0,
                  pulse_info k, source3, pulse_destination k, pulse_length k,
                  pulse_stride k, next3, 0, pins_mask]
           in (None, s\<lparr>physmem := cma_write (current_address s) data (physmem s),
                        current_address := next_cb\<rparr>)))"

definition add_delay :: "rpgpio_private \<Rightarrow> int \<Rightarrow> dmagpio \<Rightarrow> outcome" where
  "add_delay k delay_us s =
     (let next_cb = current_address s + DMA_CONTROL_BLOCK_SIZE
      in if next_cb > get_size (physmem s) then (Some MemoryError, s)
         else
          (let next = get_bus_address (physmem s) + next_cb;
               source = next - 8;
               len = 16 * delay_us;
               data =
                 [delay_info k, source, delay_destination k, len,
                  delay_stride, next, 0, 0]
           in (None, s\<lparr>physmem := cma_write (current_address s) data (physmem s),
                        current_address := next_cb\<rparr>)))"

text \<open>
  \<open>finalize_stream\<close> also logs the amount of memory taken (\<open>logging.info\<close>); the message
  touches neither the engine nor the registers and is left out.
\<close>

definition finalize_stream :: "dmagpio \<Rightarrow> dmagpio" where
  "finalize_stream s =
     s\<lparr>physmem :=
         cma_write_int (current_address s + 20 - DMA_CONTROL_BLOCK_SIZE) 0 (physmem s)\<rparr>"

text \<open>
  The loop of \<open>run_stream\<close>:
  \<^verbatim>\<open>while (self._clock.read_int(CM_CNTL) & (1 << 7)) != 0: time.sleep(0.00001)\<close>.
  It has no exit other than a read with bit 7 clear, so it is a partial function.
\<close>

partial_function (option) run_stream_wait ::
  "rpgpio_private \<Rightarrow> hardware \<Rightarrow> event list \<Rightarrow> event list option" where
  "run_stream_wait k hw tr =
     (case read_int hw (clock_mem k) (CM_CNTL (cm k)) tr of
        (v, tr1) \<Rightarrow>
          if v AND push_bit 7 1 \<noteq> 0
          then run_stream_wait k hw (tr1 @ [Sleep_us 10])
          else Some tr1)"

declare run_stream_wait.simps [code]

text \<open>The register writes of \<open>run_stream\<close> after the loop, ending with the active bit.\<close>

definition run_stream_program :: "rpgpio_private \<Rightarrow> hardware \<Rightarrow> int \<Rightarrow> event list \<Rightarrow> event list" where
  "run_stream_program k hw bus tr =
     (let tr = write_int (clock_mem k) (CM_DIV (cm k))
                 (CM_PASSWORD (cm k) OR CM_DIV_VALUE (cm k) 50) tr;
          tr = write_int (clock_mem k) (CM_CNTL (cm k))
                 (CM_PASSWORD (cm k) OR CM_SRC_PLLD (cm k) OR CM_ENABLE (cm k)) tr;
          tr = write_int (pwm_mem k) (PWM_RNG1 (pwm k)) 100 tr;
          tr = write_int (pwm_mem k) (PWM_DMAC (pwm k))
                 (PWM_DMAC_ENAB (pwm k) OR PWM_DMAC_PANIC (pwm k) 15
                    OR PWM_DMAC_DREQ (pwm k) 15) tr;
          tr = write_int (pwm_mem k) (PWM_CTL (pwm k)) (PWM_CTL_CLRF (pwm k)) tr;
          tr = write_int (pwm_mem k) (PWM_CTL (pwm k))
                 (PWM_CTL_USEF1 (pwm k) OR PWM_CTL_PWEN1 (pwm k)) tr;
          addr = 0x100 * DMA_CHANNEL;
          (cs, tr) = read_int hw (dma_mem k) addr tr;
          cs = cs OR DMA_CS_END (dma k);
          tr = write_int (dma_mem k) addr cs tr;
          tr = write_int (dma_mem k) (addr + 4) bus tr;
          cs = DMA_CS_PRIORITY (dma k) 7 OR DMA_CS_PANIC_PRIORITY (dma k) 7
                 OR DMA_CS_DISDEBUG (dma k);
          tr = write_int (dma_mem k) addr cs tr;
          cs = cs OR DMA_CS_ACTIVE (dma k)
      in write_int (dma_mem k) addr cs tr)"

definition run_stream :: "rpgpio_private \<Rightarrow> hardware \<Rightarrow> dmagpio \<Rightarrow> outcome option" where
  "run_stream k hw s =
     (let tr = write_int (pwm_mem k) (PWM_CTL (pwm k)) 0 (io s);
          tr = write_int (clock_mem k) (CM_CNTL (cm k))
                 (CM_PASSWORD (cm k) OR CM_SRC_PLLD (cm k)) tr
      in case run_stream_wait k hw tr of
           None \<Rightarrow> None
         | Some tr \<Rightarrow>
             Some (None,
               s\<lparr>io := run_stream_program k hw (get_bus_address (physmem s)) tr\<rparr>))"

definition run :: "rpgpio_private \<Rightarrow> hardware \<Rightarrow> bool \<Rightarrow> dmagpio \<Rightarrow> outcome option" where
  "run k hw loop s =
     (if current_address s = 0 then Some (Some RuntimeError, s)
      else if loop
      then run_stream k hw
             (s\<lparr>physmem :=
                  cma_write_int (current_address s + 20 - DMA_CONTROL_BLOCK_SIZE)
                    (get_bus_address (physmem s)) (physmem s)\<rparr>)
      else run_stream k hw (finalize_stream s))"

definition stop :: "rpgpio_private \<Rightarrow> hardware \<Rightarrow> dmagpio \<Rightarrow> dmagpio" where
  "stop k hw s =
     (let tr = write_int (pwm_mem k) (PWM_CTL (pwm k)) 0 (io s);
          addr = 0x100 * DMA_CHANNEL;
          (cs, tr) = read_int hw (dma_mem k) addr tr;
          cs = cs OR DMA_CS_ABORT (dma k);
          tr = write_int (dma_mem k) addr cs tr;
          cs = cs AND NOT (DMA_CS_ACTIVE (dma k));
          tr = write_int (dma_mem k) addr cs tr;
          cs = cs OR DMA_CS_RESET (dma k);
          tr = write_int (dma_mem k) addr cs tr
      in s\<lparr>io := tr\<rparr>)"

definition clear :: "dmagpio \<Rightarrow> dmagpio" where
  "clear s = s\<lparr>current_address := 0\<rparr>"

section \<open>Notions used in the statements\<close>

text \<open>The eight words of the 32-byte control block that starts at byte offset \<open>a\<close>.\<close>

definition block_at :: "cma \<Rightarrow> int \<Rightarrow> int list" where
  "block_at m a = map (\<lambda>i. words m (a + 4 * i)) [0, 1, 2, 3, 4, 5, 6, 7]"


fun busy_polls :: "rpgpio_private \<Rightarrow> hardware \<Rightarrow> event list \<Rightarrow> nat \<Rightarrow> event list" where
  "busy_polls k hw tr 0 = tr"
| "busy_polls k hw tr (Suc n) =
     busy_polls k hw (snd (read_int hw (clock_mem k) (CM_CNTL (cm k)) tr) @ [Sleep_us 10]) n"

text \<open>The history with which \<open>run_stream\<close> enters its loop.\<close>

definition clock_disabled :: "rpgpio_private \<Rightarrow> dmagpio \<Rightarrow> event list" where
  "clock_disabled k s =
     io s @ [Write (pwm_mem k) (PWM_CTL (pwm k)) 0,
             Write (clock_mem k) (CM_CNTL (cm k)) (CM_PASSWORD (cm k) OR CM_SRC_PLLD (cm k))]"

text \<open>
  A sequence of calls that build a chain. \<open>build_step\<close> is the state the engine is in
  after one call, whether the call returned or raised (the caller may catch the error
  and go on); \<open>build\<close> runs a sequence of calls from left to right.
\<close>

datatype build_call = Add_pulse int int | Add_delay int | Clear

fun build_step :: "rpgpio_private \<Rightarrow> build_call \<Rightarrow> dmagpio \<Rightarrow> dmagpio" where
  "build_step k (Add_pulse pins_mask length_us) s = snd (add_pulse k pins_mask length_us s)"
| "build_step k (Add_delay delay_us) s = snd (add_delay k delay_us s)"
| "build_step k Clear s = clear s"

definition build :: "rpgpio_private \<Rightarrow> build_call list \<Rightarrow> dmagpio \<Rightarrow> dmagpio" where
  "build k calls s = fold (build_step k) calls s"

section \<open>Sample inputs\<close>

text \<open>
  An instance of the platform constants with the register layout of the BCM2835,
  devices (one whose registers always read 0, one whose clock manager never leaves the
  busy state), a freshly constructed engine and engines with a few blocks appended or at
  the end of the buffer. They serve to evaluate the model on concrete inputs; no general
  theorem depends on their values.
\<close>

definition bcm2835 :: rpgpio_private where
  "bcm2835 =
     \<lparr>PERI_BASE = 0x3F000000,
      gpio = \<lparr>GPIO_REGISTER_BASE = 0x200000, GPIO_FSEL_OFFSET = 0x0, GPIO_SET_OFFSET = 0x1C,
               GPIO_CLEAR_OFFSET = 0x28, GPIO_INPUT_OFFSET = 0x34,
               GPIO_PULLUPDN_OFFSET = 0x94, GPIO_PULLUPDNCLK_OFFSET = 0x98,
               PHYSICAL_GPIO_BUS = 0x7E200000\<rparr>,
      dma = \<lparr>DMA_BASE = 0x007000, DMA_TI_NO_WIDE_BURSTS = push_bit 26 1,
              DMA_SRC_IGNORE = push_bit 11 1, DMA_TI_PER_MAP = push_bit 16,
              DMA_TI_PER_MAP_PWM = 5, DMA_TI_DEST_DREQ = push_bit 6 1,
              DMA_TI_TDMODE = push_bit 1 1, DMA_TI_WAIT_RESP = push_bit 3 1,
              DMA_TI_TXFR_LEN_YLENGTH = (\<lambda>y. push_bit 16 (y AND 0x3fff)),
              DMA_TI_TXFR_LEN_XLENGTH = (\<lambda>x. x AND 0xffff),
              DMA_TI_STRIDE_D_STRIDE = (\<lambda>x. push_bit 16 (x AND 0xffff)),
              DMA_TI_STRIDE_S_STRIDE = (\<lambda>x. x AND 0xffff),
              DMA_CS_RESET = push_bit 31 1, DMA_CS_ABORT = push_bit 30 1,
              DMA_CS_DISDEBUG = push_bit 28 1, DMA_CS_END = push_bit 1 1,
              DMA_CS_ACTIVE = 1,
              DMA_CS_PRIORITY = (\<lambda>x. push_bit 16 (x AND 0xf)),
              DMA_CS_PANIC_PRIORITY = (\<lambda>x. push_bit 20 (x AND 0xf))\<rparr>,
      pwm = \<lparr>PWM_BASE = 0x20C000, PHYSICAL_PWM_BUS = 0x7E20C000, PWM_CTL = 0x00,
              PWM_DMAC = 0x08, PWM_RNG1 = 0x10, PWM_CTL_PWEN1 = 1,
              PWM_CTL_CLRF = push_bit 6 1, PWM_CTL_USEF1 = push_bit 5 1,
              PWM_DMAC_ENAB = push_bit 31 1, PWM_DMAC_PANIC = push_bit 8,
              PWM_DMAC_DREQ = (\<lambda>x. x)\<rparr>,
      cm = \<lparr>CM_BASE = 0x101000, CM_CNTL = 40 * 4, CM_DIV = 41 * 4,
             CM_PASSWORD = push_bit 24 0x5A, CM_ENABLE = push_bit 4 1, CM_SRC_PLLD = 6,
             CM_DIV_VALUE = push_bit 12\<rparr>\<rparr>"

definition idle_hw :: hardware where "idle_hw tr base address = 0"

definition engine0 :: dmagpio where
  "engine0 = DMAGPIO 0xDE000000 (\<lambda>a. 0) []"

definition nearly_full :: dmagpio where
  "nearly_full = engine0\<lparr>current_address := 32 * 1024 * 1024 - 96\<rparr>"

definition full :: dmagpio where
  "full = engine0\<lparr>current_address := 32 * 1024 * 1024\<rparr>"

definition one_delay :: dmagpio where
  "one_delay = build bcm2835 [Add_delay 50] engine0"

definition one_pulse :: dmagpio where
  "one_pulse = build bcm2835 [Add_pulse 1 100] engine0"


section \<open>Appending control blocks\<close>

lemma cma_write_int_size [simp]: "get_size (cma_write_int a v m) = get_size m"
  by (simp add: cma_write_int_def)

lemma cma_write_int_bus [simp]: "get_bus_address (cma_write_int a v m) = get_bus_address m"
  by (simp add: cma_write_int_def)

lemma cma_write_size [simp]: "get_size (cma_write a vs m) = get_size m"
  by (induction vs arbitrary: a m) simp_all

lemma cma_write_bus [simp]: "get_bus_address (cma_write a vs m) = get_bus_address m"
  by (induction vs arbitrary: a m) simp_all

lemma cma_write_outside:
  "x < a \<or> a + 4 * int (length vs) \<le> x \<Longrightarrow> words (cma_write a vs m) x = words m x"
  by (induction vs arbitrary: a m) (auto simp: cma_write_int_def)

declare cma_write.simps [simp del]

lemma add_pulse_fits:
  assumes "current_address s + 96 \<le> get_size (physmem s)"
  shows "add_pulse k pins_mask length_us s =
    (None, s\<lparr>physmem := cma_write (current_address s)
        [pulse_info k, get_bus_address (physmem s) + current_address s + 24,
         pulse_destination k, pulse_length k,
         pulse_stride k, get_bus_address (physmem s) + current_address s + 32, pins_mask, 0,
         delay_info k, 0, delay_destination k, 16 * length_us,
         delay_stride, get_bus_address (physmem s) + current_address s + 64, 0, 0,
         pulse_info k, get_bus_address (physmem s) + current_address s + 88,
         pulse_destination k, pulse_length k,
         pulse_stride k, get_bus_address (physmem s) + current_address s + 96, 0, pins_mask]
        (physmem s),
      current_address := current_address s + 96\<rparr>)"
  using assms
  by (simp add: add_pulse_def DMA_CONTROL_BLOCK_SIZE_def Let_def add_ac)

lemma add_delay_fits:
  assumes "current_address s + 32 \<le> get_size (physmem s)"
  shows "add_delay k delay_us s =
    (None, s\<lparr>physmem := cma_write (current_address s)
        [delay_info k, get_bus_address (physmem s) + current_address s + 24,
         delay_destination k, 16 * delay_us,
         delay_stride, get_bus_address (physmem s) + current_address s + 32, 0, 0]
        (physmem s),
      current_address := current_address s + 32\<rparr>)"
  using assms
  by (simp add: add_delay_def DMA_CONTROL_BLOCK_SIZE_def Let_def add_ac)

lemma add_pulse_full:
  "get_size (physmem s) < current_address s + 96 \<Longrightarrow>
     add_pulse k pins_mask length_us s = (Some MemoryError, s)"
  by (simp add: add_pulse_def DMA_CONTROL_BLOCK_SIZE_def)

lemma add_delay_full:
  "get_size (physmem s) < current_address s + 32 \<Longrightarrow>
     add_delay k delay_us s = (Some MemoryError, s)"
  by (simp add: add_delay_def DMA_CONTROL_BLOCK_SIZE_def)

text \<open>
  C1. When the three blocks fit, \<open>add_pulse\<close> returns normally and has written, at the
  cursor \<open>c\<close> of a buffer with bus address \<open>b\<close>: a set block whose source is \<open>b + c + 24\<close>,
  the bus address of its own words 6 and 7, which hold \<open>[pins_mask, 0]\<close>; a delay block
  whose length word is \<open>16 * length_us\<close>; a clear block whose words 6 and 7 hold
  \<open>[0, pins_mask]\<close>. The next fields are the bus addresses of the second block, of the
  third block and of the new cursor. Nothing outside these 96 bytes changes, and the
  cursor advances by 96. This holds for every mask and every length, so in particular
  for masks of the first 32 lines and positive lengths. The words are the integers handed
  to the buffer.
\<close>

theorem add_pulse_three_blocks:
  assumes "current_address s + 96 \<le> get_size (physmem s)"
  shows "\<exists>s'. add_pulse k pins_mask length_us s = (None, s')
    \<and> block_at (physmem s') (current_address s) =
        [pulse_info k, get_bus_address (physmem s) + current_address s + 24,
         pulse_destination k, pulse_length k, pulse_stride k,
         get_bus_address (physmem s) + (current_address s + 32), pins_mask, 0]
    \<and> block_at (physmem s') (current_address s + 32) =
        [delay_info k, 0, delay_destination k, 16 * length_us, delay_stride,
         get_bus_address (physmem s) + (current_address s + 64), 0, 0]
    \<and> block_at (physmem s') (current_address s + 64) =
        [pulse_info k, get_bus_address (physmem s) + (current_address s + 64) + 24,
         pulse_destination k, pulse_length k, pulse_stride k,
         get_bus_address (physmem s) + current_address s', 0, pins_mask]
    \<and> (\<forall>a. a < current_address s \<or> current_address s + 96 \<le> a \<longrightarrow>
          words (physmem s') a = words (physmem s) a)
    \<and> current_address s' = current_address s + 96
    \<and> get_size (physmem s') = get_size (physmem s)
    \<and> get_bus_address (physmem s') = get_bus_address (physmem s)
    \<and> io s' = io s"
  unfolding add_pulse_fits [OF assms]
  by (simp add: block_at_def cma_write.simps cma_write_int_def)

theorem add_pulse_three_blocks_witness:
  "\<exists>s'. add_pulse bcm2835 1 100 engine0 = (None, s')
    \<and> block_at (physmem s') 0 =
        [67108874, 3724541976, 2116026396, 131076, 786436, 3724541984, 1, 0]
    \<and> block_at (physmem s') 32 =
        [67438656, 0, 2116075544, 1600, 0, 3724542016, 0, 0]
    \<and> block_at (physmem s') 64 =
        [67108874, 3724542040, 2116026396, 131076, 786436, 3724542048, 0, 1]
    \<and> current_address s' = 96"
proof -
  have fits: "current_address engine0 + 96 \<le> get_size (physmem engine0)"
    by (simp add: engine0_def DMAGPIO_def CMAPhysicalMemory_def)
  have "pulse_info bcm2835 = 67108874" "pulse_destination bcm2835 = 2116026396"
    "pulse_length bcm2835 = 131076" "pulse_stride bcm2835 = 786436"
    "delay_info bcm2835 = 67438656" "delay_destination bcm2835 = 2116075544"
    by (simp_all add: bcm2835_def pulse_info_def pulse_destination_def pulse_length_def
        pulse_stride_def delay_info_def delay_destination_def)
  moreover have "current_address engine0 = 0" "get_bus_address (physmem engine0) = 3724541952"
    by (simp_all add: engine0_def DMAGPIO_def CMAPhysicalMemory_def)
  ultimately show ?thesis
    using add_pulse_three_blocks [OF fits, of bcm2835 1 100]
    by (auto simp: delay_stride_def)
qed

text \<open>
  C2. An append that would move the cursor beyond the capacity raises \<open>MemoryError\<close> (the
  capacity error) and leaves the engine exactly as it was: cursor, buffer contents and
  register history.
\<close>

theorem append_overflow_atomic:
  "(get_size (physmem s) < current_address s + 96 \<longrightarrow>
      add_pulse k pins_mask length_us s = (Some MemoryError, s))
   \<and> (get_size (physmem s) < current_address s + 32 \<longrightarrow>
      add_delay k delay_us s = (Some MemoryError, s))"
  by (simp add: add_pulse_full add_delay_full)

theorem append_overflow_atomic_witness:
  "add_pulse bcm2835 1 100 full = (Some MemoryError, full)
   \<and> add_delay bcm2835 50 full = (Some MemoryError, full)"
proof -
  have "get_size (physmem full) < current_address full + 96"
    and "get_size (physmem full) < current_address full + 32"
    by (simp_all add: full_def engine0_def DMAGPIO_def CMAPhysicalMemory_def)
  then show ?thesis
    using append_overflow_atomic [of full bcm2835 1 100 50] by blast
qed

lemma add_delay_repeat:
  "current_address s + 32 * int n \<le> get_size (physmem s) \<Longrightarrow>
     current_address (((\<lambda>s. snd (add_delay k delay_us s)) ^^ n) s) = current_address s + 32 * int n
     \<and> get_size (physmem (((\<lambda>s. snd (add_delay k delay_us s)) ^^ n) s)) = get_size (physmem s)"
proof (induction n)
  case 0
  then show ?case by simp
next
  case (Suc n)
  then have ih: "current_address (((\<lambda>s. snd (add_delay k delay_us s)) ^^ n) s)
        = current_address s + 32 * int n"
      "get_size (physmem (((\<lambda>s. snd (add_delay k delay_us s)) ^^ n) s)) = get_size (physmem s)"
    by simp_all
  let ?t = "((\<lambda>s. snd (add_delay k delay_us s)) ^^ n) s"
  have "current_address ?t + 32 \<le> get_size (physmem ?t)"
    using Suc.prems ih by simp
  from add_delay_fits [OF this, of k delay_us] ih show ?case
    by simp
qed

text \<open>
  C10. The comparison is strict: an append raises exactly when the new cursor would
  exceed the capacity, and one that ends exactly at the capacity succeeds and leaves the
  cursor there. In the 32 MB buffer of a new engine, 1048576 delay blocks fill it to the
  last byte.
\<close>

theorem append_capacity_boundary:
  "(fst (add_pulse k pins_mask length_us s) = Some MemoryError
      \<longleftrightarrow> get_size (physmem s) < current_address s + 96)
   \<and> (fst (add_delay k delay_us s) = Some MemoryError
      \<longleftrightarrow> get_size (physmem s) < current_address s + 32)
   \<and> (current_address s + 96 = get_size (physmem s) \<longrightarrow>
        fst (add_pulse k pins_mask length_us s) = None
        \<and> current_address (snd (add_pulse k pins_mask length_us s)) = get_size (physmem s))
   \<and> (current_address s + 32 = get_size (physmem s) \<longrightarrow>
        fst (add_delay k delay_us s) = None
        \<and> current_address (snd (add_delay k delay_us s)) = get_size (physmem s))
   \<and> current_address (((\<lambda>s. snd (add_delay k delay_us s)) ^^ 1048576) (DMAGPIO bus contents tr))
        = get_size (physmem (DMAGPIO bus contents tr))"
proof -
  have "current_address (((\<lambda>s. snd (add_delay k delay_us s)) ^^ 1048576) (DMAGPIO bus contents tr))
        = get_size (physmem (DMAGPIO bus contents tr))"
    using add_delay_repeat [of "DMAGPIO bus contents tr" 1048576 k delay_us]
    by (simp add: DMAGPIO_def CMAPhysicalMemory_def)
  then show ?thesis
    by (simp add: add_pulse_def add_delay_def DMA_CONTROL_BLOCK_SIZE_def Let_def)
qed

theorem append_capacity_boundary_witness:
  "fst (add_pulse bcm2835 1 100 nearly_full) = None
   \<and> current_address (snd (add_pulse bcm2835 1 100 nearly_full)) = 33554432
   \<and> fst (add_delay bcm2835 50 full) = Some MemoryError"
proof -
  have a: "current_address nearly_full + 96 = get_size (physmem nearly_full)"
    and b: "get_size (physmem nearly_full) = 33554432"
    and c: "get_size (physmem full) < current_address full + 32"
    by (simp_all add: nearly_full_def full_def engine0_def DMAGPIO_def CMAPhysicalMemory_def)
  show ?thesis
    using append_capacity_boundary [of bcm2835 1 100 nearly_full]
      append_capacity_boundary [of bcm2835 1 100 full 50] a b c
    by simp
qed

section \<open>Register protocols\<close>









text \<open>
  C6. \<open>stop\<close> writes 0 to the PWM control register, reads the status register of DMA
  channel 5 once, and writes it back three times: with the abort bit set, then with the
  active bit cleared as well, then with the reset bit set as well. There is no further
  read and no loop: the call returns after these five accesses, and neither the cursor
  nor the buffer changes.
\<close>

theorem stop_register_sequence:
  fixes k :: rpgpio_private and hw :: hardware and s :: dmagpio
  defines "cs \<equiv> hw (io s @ [Write (pwm_mem k) (PWM_CTL (pwm k)) 0]) (dma_mem k) 0x500"
  defines "cs1 \<equiv> cs OR DMA_CS_ABORT (dma k)"
  defines "cs2 \<equiv> cs1 AND NOT (DMA_CS_ACTIVE (dma k))"
  defines "cs3 \<equiv> cs2 OR DMA_CS_RESET (dma k)"
  shows "stop k hw s =
      s\<lparr>io := io s @
        [Write (pwm_mem k) (PWM_CTL (pwm k)) 0,
         Read (dma_mem k) 0x500 cs,
         Write (dma_mem k) 0x500 cs1,
         Write (dma_mem k) 0x500 cs2,
         Write (dma_mem k) 0x500 cs3]\<rparr>
    \<and> cs1 AND DMA_CS_ABORT (dma k) = DMA_CS_ABORT (dma k)
    \<and> cs2 AND DMA_CS_ACTIVE (dma k) = 0
    \<and> cs3 AND DMA_CS_RESET (dma k) = DMA_CS_RESET (dma k)"
proof -
  have bits: "(x OR a) AND a = a" "(x AND NOT a) AND a = 0" for x a :: int
    by (simp_all add: bit_eq_iff bit_and_iff bit_or_iff bit_not_iff) blast
  show ?thesis
    by (simp add: stop_def read_int_def write_int_def Let_def DMA_CHANNEL_def bits
        cs_def cs1_def cs2_def cs3_def)
qed

section \<open>Running a chain\<close>



lemma busy_polls_Suc:
  "busy_polls k hw tr (Suc n) = busy_polls k hw (busy_polls k hw tr (Suc 0)) n"
  by simp





lemma run_stream_unfold:
  "run_stream k hw s =
     (case run_stream_wait k hw (clock_disabled k s) of
        None \<Rightarrow> None
      | Some tr \<Rightarrow>
          Some (None, s\<lparr>io := run_stream_program k hw (get_bus_address (physmem s)) tr\<rparr>))"
  by (simp add: run_stream_def clock_disabled_def write_int_def)


lemma run_stream_Some:
  assumes "run_stream k hw s = Some (r, s')"
  shows "r = None \<and> physmem s' = physmem s \<and> current_address s' = current_address s"
  using assms by (auto simp: run_stream_unfold split: option.splits)

lemma run_unfold:
  "current_address s \<noteq> 0 \<Longrightarrow>
     run k hw loop s =
       run_stream k hw
         (s\<lparr>physmem := cma_write_int (current_address s - 32 + 20)
              (if loop then get_bus_address (physmem s) else 0) (physmem s)\<rparr>)"
  by (simp add: run_def finalize_stream_def DMA_CONTROL_BLOCK_SIZE_def)





lemma build_one_delay: "one_delay =
    engine0\<lparr>physmem := cma_write 0
        [delay_info bcm2835, 3724541976, delay_destination bcm2835, 800,
         delay_stride, 3724541984, 0, 0] (physmem engine0),
      current_address := 32\<rparr>"
proof -
  have "current_address engine0 + 32 \<le> get_size (physmem engine0)"
    by (simp add: engine0_def DMAGPIO_def CMAPhysicalMemory_def)
  from add_delay_fits [OF this, of bcm2835 50] show ?thesis
    by (simp add: one_delay_def build_def engine0_def DMAGPIO_def CMAPhysicalMemory_def)
qed


section \<open>Sequences of calls\<close>

lemma build_Nil [simp]: "build k [] s = s"
  by (simp add: build_def)

lemma build_Cons [simp]: "build k (c # calls) s = build k calls (build_step k c s)"
  by (simp add: build_def)

lemma build_step_cases:
  "build_step k c s = s
   \<or> (c = Clear \<and> build_step k c s = clear s)
   \<or> (c \<noteq> Clear \<and> current_address s < current_address (build_step k c s)
        \<and> current_address (build_step k c s) \<le> get_size (physmem s))"
  by (cases c)
    (simp_all add: add_pulse_def add_delay_def DMA_CONTROL_BLOCK_SIZE_def Let_def)

lemma build_step_buffer [simp]:
  "get_size (physmem (build_step k c s)) = get_size (physmem s)"
  "get_bus_address (physmem (build_step k c s)) = get_bus_address (physmem s)"
  "io (build_step k c s) = io s"
  by (cases c;
      simp add: add_pulse_def add_delay_def clear_def DMA_CONTROL_BLOCK_SIZE_def Let_def)+

lemma build_buffer [simp]:
  "get_size (physmem (build k calls s)) = get_size (physmem s)"
  "get_bus_address (physmem (build k calls s)) = get_bus_address (physmem s)"
  "io (build k calls s) = io s"
  by (induction calls arbitrary: s) simp_all

lemma build_step_bound:
  assumes "0 \<le> get_size (physmem s)" and "current_address s \<le> get_size (physmem s)"
  shows "current_address (build_step k c s) \<le> get_size (physmem s)"
  using build_step_cases [of k c s] assms by (auto simp: clear_def)

lemma build_bound:
  "0 \<le> get_size (physmem s) \<Longrightarrow> current_address s \<le> get_size (physmem s) \<Longrightarrow>
     current_address (build k calls s) \<le> get_size (physmem s)"
proof (induction calls arbitrary: s)
  case Nil
  then show ?case by simp
next
  case (Cons c calls)
  have "current_address (build_step k c s) \<le> get_size (physmem (build_step k c s))"
    using build_step_bound [OF Cons.prems, of k c] by simp
  with Cons.IH [of "build_step k c s"] Cons.prems(1) show ?case
    by simp
qed

lemma build_grows:
  "Clear \<notin> set calls \<Longrightarrow>
     current_address s \<le> current_address (build k calls s)
     \<and> (current_address (build k calls s) = current_address s \<longrightarrow> build k calls s = s)"
proof (induction calls arbitrary: s)
  case Nil
  then show ?case by simp
next
  case (Cons c calls)
  let ?t = "build_step k c s"
  from Cons.prems have c: "c \<noteq> Clear" and rest: "Clear \<notin> set calls"
    by auto
  from Cons.IH [OF rest, of ?t]
  have up: "current_address ?t \<le> current_address (build k calls ?t)"
    and same: "current_address (build k calls ?t) = current_address ?t \<Longrightarrow>
      build k calls ?t = ?t"
    by simp_all
  from build_step_cases [of k c s] c
  consider "?t = s" | "current_address s < current_address ?t"
    by blast
  then show ?case
  proof cases
    case 1
    with up same show ?thesis by simp
  next
    case 2
    with up show ?thesis by simp
  qed
qed

text \<open>
  C3. \<open>run\<close> raises exactly when the cursor is 0, the error is \<open>RuntimeError\<close> (the state
  error), and the engine is then left as it was: no register access is added to the
  history and the buffer is untouched. The cursor is 0 after construction and after
  \<open>clear\<close>, and a sequence of appends started there leaves it at 0 exactly when none of
  them took effect.
\<close>

theorem run_empty_chain:
  "(run k hw loop s = Some (Some e, s') \<longleftrightarrow>
      current_address s = 0 \<and> e = RuntimeError \<and> s' = s)
   \<and> current_address (DMAGPIO bus contents tr) = 0
   \<and> current_address (clear s) = 0
   \<and> (current_address s = 0 \<and> Clear \<notin> set calls \<longrightarrow>
        (current_address (build k calls s) = 0 \<longleftrightarrow> build k calls s = s))"
proof -
  have "run k hw loop s = Some (Some e, s') \<longleftrightarrow>
      current_address s = 0 \<and> e = RuntimeError \<and> s' = s"
  proof (cases "current_address s = 0")
    case True
    then show ?thesis by (auto simp: run_def)
  next
    case False
    then show ?thesis
      by (auto simp: run_unfold dest: run_stream_Some)
  qed
  moreover have "current_address (build k calls s) = 0 \<longleftrightarrow> build k calls s = s"
    if "current_address s = 0" "Clear \<notin> set calls"
    using build_grows [OF that(2), of s k] that(1) by auto
  ultimately show ?thesis
    by (simp add: DMAGPIO_def clear_def)
qed

theorem run_empty_chain_witness:
  "run bcm2835 idle_hw False engine0 = Some (Some RuntimeError, engine0)
   \<and> build bcm2835 [Add_delay 50] engine0 \<noteq> engine0"
proof -
  have zero: "current_address engine0 = 0"
    by (simp add: engine0_def DMAGPIO_def)
  have calls: "Clear \<notin> set [Add_delay 50]"
    by simp
  have moved: "current_address (build bcm2835 [Add_delay 50] engine0) \<noteq> 0"
    using build_one_delay by (simp add: one_delay_def)
  show ?thesis
    using run_empty_chain
      [of bcm2835 idle_hw False engine0 RuntimeError engine0 _ _ _ "[Add_delay 50]"]
      zero calls moved
    by blast
qed


lemma one_pulse_state:
  "add_pulse bcm2835 1 100 engine0 = (None, one_pulse)"
  "current_address one_pulse = 96"
  "get_size (physmem one_pulse) = 32 * 1024 * 1024"
  "get_bus_address (physmem one_pulse) = 3724541952"
  "io one_pulse = []"
proof -
  have fits: "current_address engine0 + 96 \<le> get_size (physmem engine0)"
    by (simp add: engine0_def DMAGPIO_def CMAPhysicalMemory_def)
  note appended = add_pulse_fits [OF fits, of bcm2835 1 100]
  have step: "one_pulse = snd (add_pulse bcm2835 1 100 engine0)"
    by (simp add: one_pulse_def)
  show "add_pulse bcm2835 1 100 engine0 = (None, one_pulse)"
    unfolding step by (simp add: appended)
  have "current_address one_pulse = current_address engine0 + 96"
    unfolding step by (simp add: appended)
  then show "current_address one_pulse = 96"
    by (simp add: engine0_def DMAGPIO_def)
  show "get_size (physmem one_pulse) = 32 * 1024 * 1024"
    "get_bus_address (physmem one_pulse) = 3724541952" "io one_pulse = []"
    unfolding one_pulse_def
    by (simp_all add: engine0_def DMAGPIO_def CMAPhysicalMemory_def del: build_Cons build_Nil)
qed




text \<open>
  C7. \<open>clear\<close> sets the cursor to 0 and nothing else: the register history and the
  buffer are the same before and after. For an engine over the 32 MB buffer of the
  constructor, the cleared engine is the engine the constructor builds over the same
  buffer (same bus address, same contents) at the same point of the register history; so
  any sequence of appends followed by \<open>run\<close> gives the same outcome, buffer and register
  accesses included, from the one as from the other.
\<close>

theorem clear_is_fresh:
  "io (clear s) = io s
   \<and> physmem (clear s) = physmem s
   \<and> current_address (clear s) = 0
   \<and> (get_size (physmem s) = 32 * 1024 * 1024 \<longrightarrow>
        clear s = DMAGPIO (get_bus_address (physmem s)) (words (physmem s)) (io s)
        \<and> build k calls (clear s)
            = build k calls (DMAGPIO (get_bus_address (physmem s)) (words (physmem s)) (io s))
        \<and> run k hw loop (build k calls (clear s))
            = run k hw loop
                (build k calls (DMAGPIO (get_bus_address (physmem s)) (words (physmem s)) (io s))))"
proof -
  have "clear s = DMAGPIO (get_bus_address (physmem s)) (words (physmem s)) (io s)"
    if "get_size (physmem s) = 32 * 1024 * 1024"
    using that by (simp add: clear_def DMAGPIO_def CMAPhysicalMemory_def)
  then show ?thesis
    by (auto simp: clear_def)
qed

theorem clear_is_fresh_witness:
  "clear one_pulse = DMAGPIO 3724541952 (words (physmem one_pulse)) []
   \<and> run bcm2835 idle_hw True (build bcm2835 [Add_delay 50] (clear one_pulse))
      = run bcm2835 idle_hw True
          (build bcm2835 [Add_delay 50] (DMAGPIO 3724541952 (words (physmem one_pulse)) []))"
proof -
  show ?thesis
    using clear_is_fresh [of one_pulse bcm2835 "[Add_delay 50]" idle_hw True]
    by (simp add: one_pulse_state(3-) del: build_Cons build_Nil)
qed

text \<open>
  C8. Over every sequence of \<open>add_pulse\<close>, \<open>add_delay\<close> and \<open>clear\<close> calls, whether or not
  the caller catches their errors, the capacity never changes and a cursor within the
  capacity stays within it; in particular it does from a new engine on. Without \<open>clear\<close>
  the cursor never decreases, and \<open>clear\<close> puts it at 0.
\<close>

theorem cursor_within_capacity:
  "(0 \<le> get_size (physmem s) \<and> current_address s \<le> get_size (physmem s) \<longrightarrow>
      current_address (build k calls s) \<le> get_size (physmem (build k calls s)))
   \<and> get_size (physmem (build k calls s)) = get_size (physmem s)
   \<and> current_address (build k calls (DMAGPIO bus contents tr)) \<le> 32 * 1024 * 1024
   \<and> (Clear \<notin> set calls \<longrightarrow> current_address s \<le> current_address (build k calls s))
   \<and> current_address (build_step k Clear s) = 0"
proof -
  have "current_address (build k calls (DMAGPIO bus contents tr)) \<le> 32 * 1024 * 1024"
    using build_bound [of "DMAGPIO bus contents tr" k calls]
    by (simp add: DMAGPIO_def CMAPhysicalMemory_def)
  then show ?thesis
    using build_bound [of s k calls] build_grows [of calls s k]
    by (simp add: clear_def)
qed

theorem cursor_within_capacity_witness:
  "current_address (build bcm2835 [Add_pulse 1 100, Add_delay 50, Clear, Add_delay 7] engine0)
     \<le> 33554432
   \<and> current_address engine0
     \<le> current_address (build bcm2835 [Add_pulse 1 100, Add_delay 50] engine0)"
proof -
  have start: "0 \<le> get_size (physmem engine0) \<and> current_address engine0 \<le> get_size (physmem engine0)"
    and size: "get_size (physmem engine0) = 33554432"
    by (simp_all add: engine0_def DMAGPIO_def CMAPhysicalMemory_def)
  have calls: "Clear \<notin> set [Add_pulse 1 100, Add_delay 50]"
    by simp
  show ?thesis
    using cursor_within_capacity
        [of engine0 bcm2835 "[Add_pulse 1 100, Add_delay 50, Clear, Add_delay 7]"]
      cursor_within_capacity [of engine0 bcm2835 "[Add_pulse 1 100, Add_delay 50]"]
      start size calls
    by (simp del: build_Cons build_Nil)
qed

end
